theory Spec2Isabelle
  imports Complex_Main "HOL-Library.Word" "HOL-Library.Signed_Division"
begin

section \<open>Common data\<close>

text \<open>
  The sources are the host-side glue of the hip\_fmha attention operators: they pick a
  template instantiation from the run-time parameters, marshal the parameter struct into
  kernel arguments and launch. The model keeps exactly that: a dispatcher returns the
  instantiation it invokes (or the error it throws), a launcher returns the arguments it
  hands to the kernel.

  \<^item> \<open>int\<close>, \<open>int32_t\<close> and \<open>ck::index_t\<close> are 32-bit two's complement: \<open>32 word\<close>,
    compared with the signed orders \<open>\<le>s\<close> and \<open><s\<close>; \<open>int64_t\<close> is \<open>64 word\<close>.
  \<^item> \<open>float\<close> and \<open>double\<close> values are only copied by this code: they are \<open>real\<close>.
  \<^item> A device pointer is \<open>nat option\<close>, \<open>None\<close> being \<open>nullptr\<close>.
  \<^item> The stride arrays of the parameter structs (\<open>param.q_strides[i]\<close>) are declared in
    headers that are not among the sources; the code reads them at constant indices only,
    so an array is a function from the index to the element.
  \<^item> \<open>throw std::runtime_error(msg)\<close> is the value \<open>Inl (RuntimeError msg)\<close>.
\<close>

type_synonym index_t = "32 word"
type_synonym int64_t = "64 word"
type_synonym ptr = "nat option"

type_synonym strides = "nat \<Rightarrow> index_t"

datatype scalar = half_t | bhalf_t

datatype error =
    RuntimeError string
  | UndefinedDivision
  | IndexError
  | NegativeDimension

text \<open>
  \<open>a / b\<close> and \<open>a % b\<close> on \<open>int\<close> truncate towards zero. C++ leaves them undefined for a
  zero divisor and for \<open>INT_MIN / -1\<close>: there the model has no value.
\<close>

definition c_div :: "index_t \<Rightarrow> index_t \<Rightarrow> index_t option" where
  "c_div a b =
    (if b = 0 \<or> (a = - (2 ^ 31) \<and> b = - 1) then None
     else Some (word_of_int (sint a sdiv sint b)))"

definition c_rem :: "index_t \<Rightarrow> index_t \<Rightarrow> index_t option" where
  "c_rem a b =
    (if b = 0 \<or> (a = - (2 ^ 31) \<and> b = - 1) then None
     else Some (word_of_int (sint a smod sint b)))"

section \<open>Batched backward: the fp16 and bf16 dispatchers\<close>

text \<open>
  The fields of \<open>BatchedBackwardParams\<close> that the two dispatchers read. (The struct is
  declared in a header that is not among the sources; the other fields are only passed
  on with the struct.)
\<close>

record BatchedBackwardParams =
  bwd_K :: index_t
  bwd_Kv :: index_t
  bwd_has_attn_bias :: bool
  bwd_bias_has_grad :: bool
  bwd_custom_mask_type :: index_t

text \<open>
  The instantiation
  \<open>batched_backward_masktype_attnbias_dispatched<scalar_t, custom_mask_type, has_attn_bias>\<close>
  that \<open>batched_backward_bp16\<close> calls with \<open>(param, stream)\<close>.
\<close>

record masktype_attnbias_inst =
  mt_scalar_t :: scalar
  mt_custom_mask_type :: index_t
  mt_has_attn_bias :: bool

definition batched_backward_bp16 ::
  "BatchedBackwardParams \<Rightarrow> error + masktype_attnbias_inst" where
  "batched_backward_bp16 param =
    (if bwd_custom_mask_type param = 0 then
       (if bwd_has_attn_bias param
        then Inr \<lparr>mt_scalar_t = bhalf_t, mt_custom_mask_type = 0, mt_has_attn_bias = True\<rparr>
        else Inr \<lparr>mt_scalar_t = bhalf_t, mt_custom_mask_type = 0, mt_has_attn_bias = False\<rparr>)
     else if bwd_custom_mask_type param = 1 then
       (if bwd_has_attn_bias param
        then Inr \<lparr>mt_scalar_t = bhalf_t, mt_custom_mask_type = 1, mt_has_attn_bias = True\<rparr>
        else Inr \<lparr>mt_scalar_t = bhalf_t, mt_custom_mask_type = 1, mt_has_attn_bias = False\<rparr>)
     else if bwd_custom_mask_type param = 2 then
       (if bwd_has_attn_bias param
        then Inr \<lparr>mt_scalar_t = bhalf_t, mt_custom_mask_type = 2, mt_has_attn_bias = True\<rparr>
        else Inr \<lparr>mt_scalar_t = bhalf_t, mt_custom_mask_type = 2, mt_has_attn_bias = False\<rparr>)
     else Inl (RuntimeError ''Invalid custom_mask_type value''))"

text \<open>
  The instantiation
  \<open>run_batched_backward_causalmask_attnbias_dispatched<scalar_t, kHasCausalMask,
  HAS_ATTN_BIAS, HAS_BIAS_GRAD, MaxK>\<close> that \<open>batched_backward_fp16\<close> calls.
\<close>

record causalmask_attnbias_inst =
  cm_scalar_t :: scalar
  cm_has_causal_mask :: bool
  cm_has_attn_bias :: bool
  cm_has_bias_grad :: bool
  cm_MaxK :: index_t

text \<open>
  \<open>batched_backward_fp16\<close> is written with two macros whose header files are not among
  the sources.

  \<^item> \<open>BOOL_SWITCH_2(c1, N1, c2, N2, f)\<close> binds the compile-time booleans \<open>N1\<close>, \<open>N2\<close> to
    the run-time values \<open>c1\<close>, \<open>c2\<close> and calls \<open>f\<close>; the model binds them with \<open>let\<close>.
  \<^item> \<open>FMHA_BWD_HEADDIM_SWITCH(K, Kv, MaxK, f)\<close> is a parameter of the model: from the two
    head dimensions it either gives the constant \<open>MaxK\<close> with which \<open>f\<close> is called, or
    throws an error of its own.
\<close>

type_synonym headdim_switch = "index_t \<Rightarrow> index_t \<Rightarrow> error + index_t"

definition batched_backward_fp16 ::
  "headdim_switch \<Rightarrow> BatchedBackwardParams \<Rightarrow> error + causalmask_attnbias_inst" where
  "batched_backward_fp16 FMHA_BWD_HEADDIM_SWITCH param =
    (let HAS_ATTN_BIAS = bwd_has_attn_bias param;
         HAS_BIAS_GRAD = bwd_bias_has_grad param
     in if HAS_ATTN_BIAS \<or> \<not> HAS_BIAS_GRAD then
          (case FMHA_BWD_HEADDIM_SWITCH (bwd_K param) (bwd_Kv param) of
             Inl e \<Rightarrow> Inl e
           | Inr MaxK \<Rightarrow>
               if bwd_custom_mask_type param = 0 then
                 Inr \<lparr>cm_scalar_t = half_t, cm_has_causal_mask = False,
                      cm_has_attn_bias = HAS_ATTN_BIAS, cm_has_bias_grad = HAS_BIAS_GRAD,
                      cm_MaxK = MaxK\<rparr>
               else if bwd_custom_mask_type param = 1 \<or> bwd_custom_mask_type param = 2 then
                 Inr \<lparr>cm_scalar_t = half_t, cm_has_causal_mask = True,
                      cm_has_attn_bias = HAS_ATTN_BIAS, cm_has_bias_grad = HAS_BIAS_GRAD,
                      cm_MaxK = MaxK\<rparr>
               else Inl (RuntimeError ''Invalid custom_mask_type value''))
        else Inl (RuntimeError ''bias_has_grad should be false when has_attn_bias is false!''))"

section \<open>Batched inference: tile selection and argument marshaling\<close>

text \<open>
  The fields of \<open>BatchedForwardParams\<close> read by
  \<open>batched_infer_masktype_attnbias_dispatched\<close>.
\<close>

record BatchedForwardParams =
  inf_B :: index_t
  inf_num_heads :: index_t
  inf_M :: index_t
  inf_N :: index_t
  inf_K :: index_t
  inf_Kv :: index_t
  inf_scale :: real
  inf_has_attn_bias :: bool
  inf_q_ptr :: ptr
  inf_k_ptr :: ptr
  inf_v_ptr :: ptr
  inf_attn_bias_ptr :: ptr
  inf_out_ptr :: ptr
  inf_q_strides :: strides
  inf_k_strides :: strides
  inf_v_strides :: strides
  inf_attn_bias_strides :: strides
  inf_out_strides :: strides

text \<open>
  What \<open>op.MakeArgumentPointer\<close> is called with, in the order of the call. The element-wise
  operations other than \<open>Acc0ElementOp = Scale\<close> are \<open>PassThrough\<close> and carry no data;
  \<open>Scale\<close> is constructed from \<open>alpha\<close>. The two \<open>acc1\<close> bias lists are passed empty.
  \<open>arg_workspace\<close> is the pointer installed afterwards by \<open>op.SetWorkSpacePointer\<close>.
\<close>

record Argument =
  arg_q_ptr :: ptr
  arg_k_ptr :: ptr
  arg_v_ptr :: ptr
  arg_out_ptr :: ptr
  arg_attn_bias_ptr :: ptr
  a_gs_ms_ks_lengths :: "index_t list"
  a_gs_ms_ks_strides :: "index_t list"
  b0_gs_ns_ks_lengths :: "index_t list"
  b0_gs_ns_ks_strides :: "index_t list"
  b1_gs_os_ns_lengths :: "index_t list"
  b1_gs_os_ns_strides :: "index_t list"
  c_gs_ms_os_lengths :: "index_t list"
  c_gs_ms_os_strides :: "index_t list"
  d_gs_ms_ns_lengths :: "index_t list"
  d_gs_ms_ns_strides :: "index_t list"
  acc0_element_op :: real
  arg_workspace :: ptr

text \<open>
  One instantiation of the CK device operation, as far as this code uses it. These are
  member functions of the CK library, so they are parameters of the model.
\<close>

record DeviceOpInstance =
  GetWorkSpaceSize :: "Argument \<Rightarrow> nat"
  IsSupportedArgument :: "Argument \<Rightarrow> bool"
  GetTypeString :: string

text \<open>
  \<open>DeviceOpInstanceTemp<kGemm1NPerBlock, kGemm1NXdlPerWave,
  kCShuffleNXdlPerWavePerShuffle>\<close>: the CK instantiation for three tile constants (the
  other template arguments are fixed by the struct).
\<close>

type_synonym DeviceOpInstanceTemp = "index_t \<Rightarrow> index_t \<Rightarrow> index_t \<Rightarrow> DeviceOpInstance"

text \<open>
  \<open>batched_infer_masktype_attnbias_dispatched::RunWithDeviceOp<DeviceOpInstance>(param,
  stream)\<close> and \<open>Run(param, stream)\<close>. \<open>has_attn_bias\<close> is the template
  argument of the struct; \<open>SimpleDeviceMem\<close> is the device allocator, giving the buffer
  for a requested size. \<open>batched_infer_arg_ptr\<close> is the first part of \<open>RunWithDeviceOp\<close>,
  up to \<open>op.SetWorkSpacePointer\<close>: the argument that \<open>op.IsSupportedArgument\<close> and
  \<open>invoker.Run\<close> then receive. The result of \<open>RunWithDeviceOp\<close> is the argument
  \<open>invoker.Run\<close> is called with, or the error thrown before it.
\<close>

definition batched_infer_arg_ptr ::
  "bool \<Rightarrow> (nat \<Rightarrow> ptr) \<Rightarrow> DeviceOpInstance \<Rightarrow> BatchedForwardParams \<Rightarrow> Argument" where
  "batched_infer_arg_ptr has_attn_bias SimpleDeviceMem op param =
    (let alpha = inf_scale param;
         arg_ptr = \<lparr>
           arg_q_ptr = inf_q_ptr param,
           arg_k_ptr = inf_k_ptr param,
           arg_v_ptr = inf_v_ptr param,
           arg_out_ptr = inf_out_ptr param,
           arg_attn_bias_ptr =
             (if inf_has_attn_bias param then inf_attn_bias_ptr param else None),
           a_gs_ms_ks_lengths = [inf_B param, inf_num_heads param, inf_M param, inf_K param],
           a_gs_ms_ks_strides =
             [inf_q_strides param 0, inf_q_strides param 2,
              inf_q_strides param 1, inf_q_strides param 3],
           b0_gs_ns_ks_lengths = [inf_B param, inf_num_heads param, inf_N param, inf_K param],
           b0_gs_ns_ks_strides =
             [inf_k_strides param 0, inf_k_strides param 2,
              inf_k_strides param 1, inf_k_strides param 3],
           b1_gs_os_ns_lengths = [inf_B param, inf_num_heads param, inf_Kv param, inf_N param],
           b1_gs_os_ns_strides =
             [inf_v_strides param 0, inf_v_strides param 2,
              inf_v_strides param 3, inf_v_strides param 1],
           c_gs_ms_os_lengths = [inf_B param, inf_num_heads param, inf_M param, inf_Kv param],
           c_gs_ms_os_strides =
             [inf_out_strides param 0, inf_out_strides param 2,
              inf_out_strides param 1, inf_out_strides param 3],
           d_gs_ms_ns_lengths =
             (if has_attn_bias
              then [inf_B param, inf_num_heads param, inf_M param, inf_N param]
              else [1, 1, 1, 1]),
           d_gs_ms_ns_strides =
             (if has_attn_bias
              then [inf_attn_bias_strides param 0, inf_attn_bias_strides param 1,
                    inf_attn_bias_strides param 2, inf_attn_bias_strides param 3]
              else [0, 0, 0, 0]),
           acc0_element_op = alpha,
           arg_workspace = None\<rparr>;
         workspace = SimpleDeviceMem (GetWorkSpaceSize op arg_ptr)
     in arg_ptr\<lparr>arg_workspace := workspace\<rparr>)"

definition batched_infer_RunWithDeviceOp ::
  "bool \<Rightarrow> (nat \<Rightarrow> ptr) \<Rightarrow> DeviceOpInstance \<Rightarrow> BatchedForwardParams \<Rightarrow> error + Argument" where
  "batched_infer_RunWithDeviceOp has_attn_bias SimpleDeviceMem op param =
    (let arg_ptr = batched_infer_arg_ptr has_attn_bias SimpleDeviceMem op param
     in if \<not> IsSupportedArgument op arg_ptr
        then Inl (RuntimeError (GetTypeString op @ '' does not support this problem''))
        else Inr arg_ptr)"

definition batched_infer_Run ::
  "bool \<Rightarrow> (nat \<Rightarrow> ptr) \<Rightarrow> DeviceOpInstanceTemp \<Rightarrow> BatchedForwardParams \<Rightarrow> error + Argument" where
  "batched_infer_Run has_attn_bias SimpleDeviceMem DeviceOpInstanceTemp param =
    (if inf_K param \<le>s 32 \<and> inf_Kv param \<le>s 32 then
       (let kGemm1NPerBlock = 32; kGemm1NXdlPerWave = 1; kCShuffleNXdlPerWavePerShuffle = 1
        in batched_infer_RunWithDeviceOp has_attn_bias SimpleDeviceMem
             (DeviceOpInstanceTemp kGemm1NPerBlock kGemm1NXdlPerWave
                kCShuffleNXdlPerWavePerShuffle) param)
     else if inf_K param \<le>s 64 \<and> inf_Kv param \<le>s 64 then
       (let kGemm1NPerBlock = 64; kGemm1NXdlPerWave = 2; kCShuffleNXdlPerWavePerShuffle = 2
        in batched_infer_RunWithDeviceOp has_attn_bias SimpleDeviceMem
             (DeviceOpInstanceTemp kGemm1NPerBlock kGemm1NXdlPerWave
                kCShuffleNXdlPerWavePerShuffle) param)
     else
       (let kGemm1NPerBlock = 128; kGemm1NXdlPerWave = 4; kCShuffleNXdlPerWavePerShuffle = 4
        in batched_infer_RunWithDeviceOp has_attn_bias SimpleDeviceMem
             (DeviceOpInstanceTemp kGemm1NPerBlock kGemm1NXdlPerWave
                kCShuffleNXdlPerWavePerShuffle) param))"

section \<open>Grouped inference and grouped forward: kernel selection and kernel arguments\<close>

text \<open>The fields of \<open>GroupedForwardParams\<close> read by the two grouped dispatch structs.\<close>

record GroupedForwardParams =
  grp_num_batches :: index_t
  grp_max_seqlen_q :: index_t
  grp_Hq :: index_t
  grp_Hkv :: index_t
  grp_K :: index_t
  grp_Kv :: index_t
  grp_scale :: real
  grp_q_ptr :: ptr
  grp_k_ptr :: ptr
  grp_v_ptr :: ptr
  grp_attn_bias_ptr :: ptr
  grp_logsumexp_ptr :: ptr
  grp_out_ptr :: ptr
  grp_seqstart_q_dev_ptr :: ptr
  grp_seqstart_k_dev_ptr :: ptr
  grp_seqlen_k_dev_ptr :: ptr
  grp_q_strides :: strides
  grp_k_strides :: strides
  grp_v_strides :: strides
  grp_attn_bias_strides :: strides
  grp_out_strides :: strides
  grp_lse_strides :: strides
  grp_custom_mask_type :: index_t
  grp_window_size :: index_t
  grp_dropout_prob :: real
  grp_philox_seed :: int64_t
  grp_philox_offset :: int64_t

text \<open>
  The arguments of \<open>MakeKargs\<close> that the two calls have in common, named after the
  comments of the source and the position in the call.
\<close>

record Kargs =
  q_ptr :: ptr
  k_ptr :: ptr
  v_ptr :: ptr
  bias_ptr :: ptr
  rand_val_ptr :: ptr
  lse_ptr :: ptr
  o_ptr :: ptr
  seqstart_q_ptr :: ptr
  seqstart_k_ptr :: ptr
  seqlen_k_ptr :: ptr
  hdim_q :: index_t
  hdim_v :: index_t
  nhead_q :: index_t
  nhead_ratio_qk :: index_t
  scale :: real
  stride_q :: index_t
  stride_k :: index_t
  stride_v :: index_t
  stride_bias :: index_t
  stride_randval :: index_t
  stride_o :: index_t
  nhead_stride_q :: index_t
  nhead_stride_k :: index_t
  nhead_stride_v :: index_t
  nhead_stride_bias :: index_t
  nhead_stride_randval :: index_t
  nhead_stride_lse :: index_t
  nhead_stride_o :: index_t
  batch_stride_lse :: index_t
  descale_qk :: real
  descale_sv :: real
  p_drop :: real
  is_store_randval :: bool
  drop_seed_offset :: "int64_t \<times> int64_t"

text \<open>
  \<open>CausalMaskType\<close> is an enumeration declared in a header that is not among the sources;
  \<open>static_cast<CausalMaskType>(i)\<close> keeps the integer \<open>i\<close> as the value of the enumeration.
\<close>

datatype CausalMaskType = CausalMaskType index_t

record InferKargs = Kargs +
  infer_mask_type :: CausalMaskType
  infer_window_size :: index_t

record ForwardKargs = Kargs +
  window_left_size :: index_t
  window_right_size :: index_t
  mask_type :: index_t

text \<open>
  A launch: the kernel arguments and the four arguments of \<open>GridSize\<close>. The value
  \<open>launch_kernel\<close> returns is discarded by the source.
\<close>

record 'k launch =
  launch_kargs :: 'k
  launch_kGridSize :: "index_t list"

text \<open>
  The kernel type assembled by \<open>Run\<close>: the mask type, the arguments of \<open>TileFmhaTraits\<close>
  and the struct's own template arguments.
\<close>

datatype FmhaMask =
    GenericAttentionMask bool bool
  | SimplifiedGenericAttentionMask bool

record FmhaKernel =
  fk_scalar_t :: scalar
  fk_MaxK :: index_t
  fk_FmhaMask :: FmhaMask
  fk_kPadSeqLenQ :: bool
  fk_kPadSeqLenK :: bool
  fk_kPadHeadDimQ :: bool
  fk_kPadHeadDimV :: bool
  fk_kHasBias :: bool
  fk_kHasBiasGrad :: bool
  fk_kStoreLSE :: bool
  fk_kHasDropout :: bool
  fk_occupancy :: index_t

text \<open>
  The two constants of \<open>FmhaFwdShape<MaxK>\<close> that \<open>Run\<close> reads. They are computed by the
  CK class \<open>TileFmhaShape\<close>, so they are parameters of the model.
\<close>

record FmhaShape =
  kK0BlockLength :: index_t
  kN1 :: index_t

subsection \<open>grouped\_infer\_causalmask\_attnbias\_dispatched\<close>

text \<open>\<open>RunWithKernel<FmhaKernel>(param, stream)\<close> of the grouped inference struct.\<close>

definition grouped_infer_RunWithKernel ::
  "GroupedForwardParams \<Rightarrow> error + InferKargs launch" where
  "grouped_infer_RunWithKernel param =
    (case c_div (grp_Hq param) (grp_Hkv param) of
       None \<Rightarrow> Inl UndefinedDivision
     | Some ratio \<Rightarrow>
         Inr \<lparr>launch_kargs = \<lparr>
                q_ptr = grp_q_ptr param,
                k_ptr = grp_k_ptr param,
                v_ptr = grp_v_ptr param,
                bias_ptr = grp_attn_bias_ptr param,
                rand_val_ptr = None,
                lse_ptr = None,
                o_ptr = grp_out_ptr param,
                seqstart_q_ptr = grp_seqstart_q_dev_ptr param,
                seqstart_k_ptr = grp_seqstart_k_dev_ptr param,
                seqlen_k_ptr = grp_seqlen_k_dev_ptr param,
                hdim_q = grp_K param,
                hdim_v = grp_Kv param,
                nhead_q = grp_Hq param,
                nhead_ratio_qk = ratio,
                scale = grp_scale param,
                stride_q = grp_q_strides param 0,
                stride_k = grp_k_strides param 0,
                stride_v = grp_v_strides param 0,
                stride_bias = grp_attn_bias_strides param 2,
                stride_randval = 0,
                stride_o = grp_out_strides param 0,
                nhead_stride_q = grp_q_strides param 1,
                nhead_stride_k = grp_k_strides param 1,
                nhead_stride_v = grp_v_strides param 1,
                nhead_stride_bias = grp_attn_bias_strides param 1,
                nhead_stride_randval = 0,
                nhead_stride_lse = 0,
                nhead_stride_o = grp_out_strides param 1,
                batch_stride_lse = 0,
                descale_qk = 1,
                descale_sv = 1,
                p_drop = grp_dropout_prob param,
                is_store_randval = False,
                drop_seed_offset = (0, 0),
                infer_mask_type = CausalMaskType (grp_custom_mask_type param),
                infer_window_size = grp_window_size param\<rparr>,
              launch_kGridSize =
                [grp_num_batches param, grp_Hq param, grp_max_seqlen_q param, grp_Kv param]\<rparr>)"

text \<open>
  \<open>Run(param, stream)\<close> of the grouped inference struct, with its template arguments
  \<open>scalar_t\<close>, \<open>has_causal_mask\<close>, \<open>has_attn_bias\<close> and \<open>MaxK\<close>. \<open>BOOL_SWITCH\<close> and
  \<open>BOOL_SWITCH_3\<close> bind compile-time booleans to run-time values, as \<open>BOOL_SWITCH_2\<close>
  does. The result is the kernel type and its launch.
\<close>

definition grouped_infer_Run ::
  "scalar \<Rightarrow> bool \<Rightarrow> bool \<Rightarrow> index_t \<Rightarrow> FmhaShape \<Rightarrow> GroupedForwardParams
    \<Rightarrow> error + (FmhaKernel \<times> InferKargs launch)" where
  "grouped_infer_Run scalar_t has_causal_mask has_attn_bias MaxK FmhaShape param =
    (let has_local_attention = (if 0 <s grp_window_size param then True else False);
         USE_LOCAL_ATTENTION = has_local_attention;
         has_masking = (has_causal_mask \<or> USE_LOCAL_ATTENTION);
         has_dropout = (0 < grp_dropout_prob param);
         occupancy = (if MaxK = 64 then 3 else (if MaxK = 256 then 1 else 2))
     in case c_rem (grp_K param) (kK0BlockLength FmhaShape) of
          None \<Rightarrow> Inl UndefinedDivision
        | Some rem_q \<Rightarrow>
       (case c_rem (grp_Kv param) (kN1 FmhaShape) of
          None \<Rightarrow> Inl UndefinedDivision
        | Some rem_v \<Rightarrow>
       (let pad_headdim_q = \<not> (rem_q = 0);
            pad_headdim_v = \<not> (rem_v = 0);
            FmhaKernel = \<lparr>
              fk_scalar_t = scalar_t,
              fk_MaxK = MaxK,
              fk_FmhaMask = GenericAttentionMask has_masking USE_LOCAL_ATTENTION,
              fk_kPadSeqLenQ = True,
              fk_kPadSeqLenK = True,
              fk_kPadHeadDimQ = pad_headdim_q,
              fk_kPadHeadDimV = pad_headdim_v,
              fk_kHasBias = has_attn_bias,
              fk_kHasBiasGrad = False,
              fk_kStoreLSE = False,
              fk_kHasDropout = has_dropout,
              fk_occupancy = occupancy\<rparr>
        in case grouped_infer_RunWithKernel param of
             Inl e \<Rightarrow> Inl e
           | Inr l \<Rightarrow> Inr (FmhaKernel, l))))"

subsection \<open>grouped\_forward\_causalmask\_bias\_dropout\_dispatch\<close>

text \<open>\<open>RunWithKernel<FmhaFwdKernel>(param, stream)\<close> of the grouped forward struct.\<close>

definition grouped_forward_RunWithKernel ::
  "GroupedForwardParams \<Rightarrow> error + ForwardKargs launch" where
  "grouped_forward_RunWithKernel param =
    (case c_div (grp_Hq param) (grp_Hkv param) of
       None \<Rightarrow> Inl UndefinedDivision
     | Some ratio \<Rightarrow>
         Inr \<lparr>launch_kargs = \<lparr>
                q_ptr = grp_q_ptr param,
                k_ptr = grp_k_ptr param,
                v_ptr = grp_v_ptr param,
                bias_ptr = grp_attn_bias_ptr param,
                rand_val_ptr = None,
                lse_ptr = grp_logsumexp_ptr param,
                o_ptr = grp_out_ptr param,
                seqstart_q_ptr = grp_seqstart_q_dev_ptr param,
                seqstart_k_ptr = grp_seqstart_k_dev_ptr param,
                seqlen_k_ptr = grp_seqlen_k_dev_ptr param,
                hdim_q = grp_K param,
                hdim_v = grp_Kv param,
                nhead_q = grp_Hq param,
                nhead_ratio_qk = ratio,
                scale = grp_scale param,
                stride_q = grp_q_strides param 0,
                stride_k = grp_k_strides param 0,
                stride_v = grp_v_strides param 0,
                stride_bias = grp_attn_bias_strides param 2,
                stride_randval = 0,
                stride_o = grp_out_strides param 0,
                nhead_stride_q = grp_q_strides param 1,
                nhead_stride_k = grp_k_strides param 1,
                nhead_stride_v = grp_v_strides param 1,
                nhead_stride_bias = grp_attn_bias_strides param 1,
                nhead_stride_randval = 0,
                nhead_stride_lse = grp_lse_strides param 1,
                nhead_stride_o = grp_out_strides param 1,
                batch_stride_lse = grp_lse_strides param 0,
                descale_qk = 1,
                descale_sv = 1,
                p_drop = grp_dropout_prob param,
                is_store_randval = False,
                drop_seed_offset = (grp_philox_seed param, grp_philox_offset param),
                window_left_size =
                  (if 0 <s grp_window_size param then grp_window_size param - 1 else - 1),
                window_right_size = (if grp_custom_mask_type param = 0 then - 1 else 0),
                mask_type = grp_custom_mask_type param\<rparr>,
              launch_kGridSize =
                [grp_num_batches param, grp_Hq param, grp_max_seqlen_q param, grp_Kv param]\<rparr>)"

text \<open>
  \<open>Run(param, stream)\<close> of the grouped forward struct, with its template arguments
  \<open>ScalarType\<close>, \<open>kHasCausalMask\<close>, \<open>kHasBias\<close>, \<open>kHasDropout\<close> and \<open>MaxK\<close>.
\<close>

definition grouped_forward_Run ::
  "scalar \<Rightarrow> bool \<Rightarrow> bool \<Rightarrow> bool \<Rightarrow> index_t \<Rightarrow> FmhaShape \<Rightarrow> GroupedForwardParams
    \<Rightarrow> error + (FmhaKernel \<times> ForwardKargs launch)" where
  "grouped_forward_Run ScalarType kHasCausalMask kHasBias kHasDropout MaxK FmhaFwdShape param =
    (let has_local_attention = (if 0 <s grp_window_size param then True else False);
         USE_LOCAL_ATTENTION = has_local_attention;
         has_masking = (kHasCausalMask \<or> USE_LOCAL_ATTENTION);
         occupancy = (if MaxK = 64 then 3 else if MaxK = 256 then 1 else 2)
     in case c_rem (grp_K param) (kK0BlockLength FmhaFwdShape) of
          None \<Rightarrow> Inl UndefinedDivision
        | Some rem_q \<Rightarrow>
       (case c_rem (grp_Kv param) (kN1 FmhaFwdShape) of
          None \<Rightarrow> Inl UndefinedDivision
        | Some rem_v \<Rightarrow>
       (let pad_headdim_q = \<not> (rem_q = 0);
            pad_headdim_v = \<not> (rem_v = 0);
            FmhaFwdKernel = \<lparr>
              fk_scalar_t = ScalarType,
              fk_MaxK = MaxK,
              fk_FmhaMask = SimplifiedGenericAttentionMask has_masking,
              fk_kPadSeqLenQ = True,
              fk_kPadSeqLenK = True,
              fk_kPadHeadDimQ = pad_headdim_q,
              fk_kPadHeadDimV = pad_headdim_v,
              fk_kHasBias = kHasBias,
              fk_kHasBiasGrad = False,
              fk_kStoreLSE = True,
              fk_kHasDropout = kHasDropout,
              fk_occupancy = occupancy\<rparr>
        in case grouped_forward_RunWithKernel param of
             Inl e \<Rightarrow> Inl e
           | Inr l \<Rightarrow> Inr (FmhaFwdKernel, l))))"

section \<open>rand\_uniform\_int\<close>

text \<open>
  A tensor handle of the host framework: its sizes, its strides, its options and the
  address of its storage. \<open>tensor_size\<close> is \<open>Tensor::size(d)\<close>, which raises for a
  dimension the tensor does not have.
\<close>

datatype ScalarType = ScalarType_Int | ScalarType_Other nat

record TensorOptions =
  opt_dtype :: ScalarType
  opt_device :: nat

record Tensor =
  t_sizes :: "int64_t list"
  t_strides :: "nat \<Rightarrow> int64_t"
  t_options :: TensorOptions
  t_data_ptr :: ptr

definition tensor_size :: "Tensor \<Rightarrow> nat \<Rightarrow> error + int64_t" where
  "tensor_size t d = (if d < length (t_sizes t) then Inr (t_sizes t ! d) else Inl IndexError)"

text \<open>
  The functions of the host framework that \<open>rand_uniform_int\<close> calls are parameters of
  the model:
  \<^item> \<open>philox_cuda_state gen increment\<close> is \<open>gen->philox_cuda_state(increment)\<close> on the
    default CUDA generator, taken under the generator's mutex: the captured state and
    the generator afterwards;
  \<^item> \<open>philox_unpack\<close> is \<open>at::cuda::philox::unpack\<close>, giving seed and offset;
  \<^item> \<open>empty_strides\<close> and \<open>empty_data_ptr\<close> are the strides and the storage address that
    \<open>at::empty\<close> gives a new tensor of the sizes asked for.
\<close>

record ('g, 's) framework =
  philox_cuda_state :: "'g \<Rightarrow> int64_t \<Rightarrow> 's \<times> 'g"
  philox_unpack :: "'s \<Rightarrow> int64_t \<times> int64_t"
  empty_strides :: "int64_t list \<Rightarrow> nat \<Rightarrow> int64_t"
  empty_data_ptr :: "int64_t list \<Rightarrow> ptr"

text \<open>\<open>at::empty(sizes, options)\<close>: a new tensor of these sizes; a negative size is refused.\<close>

definition at_empty ::
  "('g, 's) framework \<Rightarrow> int64_t list \<Rightarrow> TensorOptions \<Rightarrow> error + Tensor" where
  "at_empty fw sizes options =
    (if list_ex (\<lambda>n. n <s 0) sizes then Inl NegativeDimension
     else Inr \<lparr>t_sizes = sizes, t_strides = empty_strides fw sizes,
               t_options = options, t_data_ptr = empty_data_ptr fw sizes\<rparr>)"

text \<open>The arguments of \<open>FmhaRandUniformKernel_::MakeKargs\<close>, in the order of the call.\<close>

record RandUniformKargs =
  ru_rand_val_ptr :: ptr
  ru_M :: index_t
  ru_N :: index_t
  ru_num_heads :: index_t
  ru_B :: index_t
  ru_stride_2 :: index_t
  ru_stride_3 :: index_t
  ru_stride_1 :: index_t
  ru_stride_0 :: index_t
  ru_seed_offset :: "int64_t \<times> int64_t"

text \<open>
  Modelled from the spec: the kernel \<open>FmhaRandUniformKernel<128, 64, 32, int32_t, false>\<close>
  of \<open>ck_tiled_fmha_rand_uniform_kernel.hpp\<close>, a header of this repository that is not
  among the sources. The spec says of the Philox generator that it is counter-based and
  gives a deterministic, seek-able random stream across parallel GPU threads. So the
  number the kernel stores for the element at \<open>[b, h, m, n]\<close> is a function \<open>philox\<close> of
  the seed and offset, of the extents of the launch and of the place of the element; the
  result is the contents of the tensor, element by element.
\<close>

type_synonym philox = "int64_t \<times> int64_t \<Rightarrow> index_t list \<Rightarrow> index_t list \<Rightarrow> index_t"

definition FmhaRandUniformKernel ::
  "philox \<Rightarrow> RandUniformKargs \<Rightarrow> index_t list \<Rightarrow> (index_t list \<Rightarrow> index_t)" where
  "FmhaRandUniformKernel philox kargs grid =
    (\<lambda>element. philox (ru_seed_offset kargs) grid element)"

text \<open>
  What a call of \<open>rand_uniform_int\<close> does and returns: the tensor \<open>randvals\<close> with the
  contents the kernel has left in it, the increment asked of the generator, the
  generator afterwards, and the kernel arguments and grid of the launch.
\<close>

record 'g rand_uniform_result =
  res_randvals :: Tensor
  res_contents :: "index_t list \<Rightarrow> index_t"
  res_increment :: int64_t
  res_generator :: 'g
  res_kargs :: RandUniformKargs
  res_kGridSize :: "index_t list"

text \<open>
  \<open>rand_uniform_int(dropout_prob, out_pattern)\<close>. \<open>int B = out_pattern.size(0)\<close> keeps the
  low 32 bits of the 64-bit size; \<open>B * num_heads * M * N\<close> is a product of \<open>int\<close>s,
  converted to the 64-bit parameter of \<open>philox_cuda_state\<close>; the sizes given to
  \<open>at::empty\<close> are the four \<open>int\<close>s widened again; \<open>static_cast<int>\<close> narrows a stride.
\<close>

definition rand_uniform_int ::
  "('g, 's) framework \<Rightarrow> philox \<Rightarrow> real \<Rightarrow> Tensor \<Rightarrow> 'g \<Rightarrow> error + 'g rand_uniform_result" where
  "rand_uniform_int fw philox dropout_prob out_pattern gen =
    (case tensor_size out_pattern 0 of Inl e \<Rightarrow> Inl e | Inr size0 \<Rightarrow>
    (case tensor_size out_pattern 1 of Inl e \<Rightarrow> Inl e | Inr size1 \<Rightarrow>
    (case tensor_size out_pattern 2 of Inl e \<Rightarrow> Inl e | Inr size2 \<Rightarrow>
    (case tensor_size out_pattern 3 of Inl e \<Rightarrow> Inl e | Inr size3 \<Rightarrow>
     (let B = (ucast size0 :: index_t);
          num_heads = (ucast size1 :: index_t);
          M = (ucast size2 :: index_t);
          N = (ucast size3 :: index_t);
          increment = (scast (B * num_heads * M * N) :: int64_t);
          (rng_engine_inputs, gen') = philox_cuda_state fw gen increment;
          seeds = philox_unpack fw rng_engine_inputs;
          philox_seed = fst seeds;
          philox_offset = snd seeds
      in (case at_empty fw [scast B, scast num_heads, scast M, scast N]
                ((t_options out_pattern)\<lparr>opt_dtype := ScalarType_Int\<rparr>) of
           Inl e \<Rightarrow> Inl e
         | Inr randvals \<Rightarrow>
             (let kargs = \<lparr>
                    ru_rand_val_ptr = t_data_ptr randvals,
                    ru_M = M,
                    ru_N = N,
                    ru_num_heads = num_heads,
                    ru_B = B,
                    ru_stride_2 = ucast (t_strides randvals 2),
                    ru_stride_3 = ucast (t_strides randvals 3),
                    ru_stride_1 = ucast (t_strides randvals 1),
                    ru_stride_0 = ucast (t_strides randvals 0),
                    ru_seed_offset = (philox_seed, philox_offset)\<rparr>;
                  kGridSize = [B, num_heads, M, N]
              in Inr \<lparr>res_randvals = randvals,
                      res_contents = FmhaRandUniformKernel philox kargs kGridSize,
                      res_increment = increment,
                      res_generator = gen',
                      res_kargs = kargs,
                      res_kGridSize = kGridSize\<rparr>)))))))"

section \<open>Concrete inputs\<close>

text \<open>
  Inputs on which the definitions above are evaluated below: a head-dimension switch with
  the buckets 32, 64 and 128, a CK instantiation that supports every argument or none,
  tile-shape constants, and parameter structs.
\<close>

definition example_headdim_switch :: headdim_switch where
  "example_headdim_switch K Kv =
    (if K \<le>s 32 \<and> Kv \<le>s 32 then Inr 32
     else if K \<le>s 64 \<and> Kv \<le>s 64 then Inr 64
     else if K \<le>s 128 \<and> Kv \<le>s 128 then Inr 128
     else Inl (RuntimeError ''Head-dim sizes not supported!''))"

definition example_bwd_params :: "index_t \<Rightarrow> bool \<Rightarrow> bool \<Rightarrow> BatchedBackwardParams" where
  "example_bwd_params custom_mask_type has_attn_bias bias_has_grad =
    \<lparr>bwd_K = 64, bwd_Kv = 64, bwd_has_attn_bias = has_attn_bias,
     bwd_bias_has_grad = bias_has_grad, bwd_custom_mask_type = custom_mask_type\<rparr>"

definition example_device_op :: "bool \<Rightarrow> DeviceOpInstanceTemp" where
  "example_device_op supported kGemm1NPerBlock kGemm1NXdlPerWave kCShuffleNXdlPerWavePerShuffle =
    \<lparr>GetWorkSpaceSize = (\<lambda>arg. 0),
     IsSupportedArgument = (\<lambda>arg. supported),
     GetTypeString = ''DeviceBatchedMultiheadAttentionInfer_Xdl_CShuffle''\<rparr>"

definition example_infer_params :: "index_t \<Rightarrow> index_t \<Rightarrow> bool \<Rightarrow> BatchedForwardParams" where
  "example_infer_params K Kv has_attn_bias =
    \<lparr>inf_B = 2, inf_num_heads = 8, inf_M = 128, inf_N = 256, inf_K = K, inf_Kv = Kv,
     inf_scale = 1 / 8, inf_has_attn_bias = has_attn_bias,
     inf_q_ptr = Some 4096, inf_k_ptr = Some 8192, inf_v_ptr = Some 12288,
     inf_attn_bias_ptr = Some 16384, inf_out_ptr = Some 20480,
     inf_q_strides = nth [65536, 512, 64, 1],
     inf_k_strides = nth [131072, 512, 64, 1],
     inf_v_strides = nth [131072, 512, 64, 1],
     inf_attn_bias_strides = nth [262144, 32768, 256, 1],
     inf_out_strides = nth [65536, 512, 64, 1]\<rparr>"

definition example_grouped_params :: "index_t \<Rightarrow> index_t \<Rightarrow> GroupedForwardParams" where
  "example_grouped_params custom_mask_type window_size =
    \<lparr>grp_num_batches = 3, grp_max_seqlen_q = 512, grp_Hq = 16, grp_Hkv = 4,
     grp_K = 64, grp_Kv = 64, grp_scale = 1 / 8,
     grp_q_ptr = Some 4096, grp_k_ptr = Some 8192, grp_v_ptr = Some 12288,
     grp_attn_bias_ptr = None, grp_logsumexp_ptr = Some 16384, grp_out_ptr = Some 20480,
     grp_seqstart_q_dev_ptr = Some 24576, grp_seqstart_k_dev_ptr = Some 28672,
     grp_seqlen_k_dev_ptr = None,
     grp_q_strides = nth [1024, 64, 1],
     grp_k_strides = nth [256, 64, 1],
     grp_v_strides = nth [256, 64, 1],
     grp_attn_bias_strides = nth [0, 0, 0, 0],
     grp_out_strides = nth [1024, 64, 1],
     grp_lse_strides = nth [1536, 1],
     grp_custom_mask_type = custom_mask_type, grp_window_size = window_size,
     grp_dropout_prob = 1 / 10, grp_philox_seed = 1234, grp_philox_offset = 5678\<rparr>"

definition example_shape :: FmhaShape where
  "example_shape = \<lparr>kK0BlockLength = 64, kN1 = 64\<rparr>"

text \<open>
  A framework whose generator is its offset (the seed is 42) and whose new tensors are
  contiguous, a generator function, and an \<open>out_pattern\<close> tensor of given sizes.
\<close>

definition example_framework :: "(int64_t, int64_t \<times> int64_t) framework" where
  "example_framework =
    \<lparr>philox_cuda_state = (\<lambda>offset increment. ((42, offset), offset + increment)),
     philox_unpack = (\<lambda>state. state),
     empty_strides = (\<lambda>sizes d. prod_list (drop (Suc d) sizes)),
     empty_data_ptr = (\<lambda>sizes. Some 65536)\<rparr>"

definition example_philox :: philox where
  "example_philox seed_offset grid element =
    ucast (fst seed_offset + snd seed_offset) + sum_list element"

definition example_out_pattern :: "int64_t list \<Rightarrow> Tensor" where
  "example_out_pattern sizes =
    \<lparr>t_sizes = sizes, t_strides = (\<lambda>d. prod_list (drop (Suc d) sizes)),
     t_options = \<lparr>opt_dtype = ScalarType_Other 5, opt_device = 0\<rparr>,
     t_data_ptr = Some 4096\<rparr>"

section \<open>Batched backward dispatch: the errors and the selection\<close>

text \<open>
  Claim C3. \<open>batched_backward_fp16\<close> throws
  \<open>std::runtime_error("bias_has_grad should be false when has_attn_bias is false!")\<close>
  whenever \<open>param.bias_has_grad\<close> is true and \<open>param.has_attn_bias\<close> is false, and then no
  instantiation is invoked. When \<open>has_attn_bias\<close> is true or \<open>bias_has_grad\<close> is false,
  the function does not raise that error: what it returns is what the head-dimension
  switch and the mask-type test give, so the error can only appear if the
  head-dimension switch itself throws it.
\<close>

theorem batched_backward_fp16_bias_grad_error:
  "(bwd_bias_has_grad p \<and> \<not> bwd_has_attn_bias p \<longrightarrow>
      batched_backward_fp16 sw p =
        Inl (RuntimeError ''bias_has_grad should be false when has_attn_bias is false!'')
      \<and> (\<forall>c. batched_backward_fp16 sw p \<noteq> Inr c))
   \<and> ((bwd_has_attn_bias p \<or> \<not> bwd_bias_has_grad p) \<and>
       sw (bwd_K p) (bwd_Kv p) \<noteq>
         Inl (RuntimeError ''bias_has_grad should be false when has_attn_bias is false!'') \<longrightarrow>
      batched_backward_fp16 sw p \<noteq>
        Inl (RuntimeError ''bias_has_grad should be false when has_attn_bias is false!''))"
  by (auto simp: batched_backward_fp16_def Let_def split: sum.splits)

theorem batched_backward_fp16_bias_grad_error_witness:
  "batched_backward_fp16 example_headdim_switch (example_bwd_params 0 False True) =
     Inl (RuntimeError ''bias_has_grad should be false when has_attn_bias is false!'')
   \<and> batched_backward_fp16 example_headdim_switch (example_bwd_params 0 True True) \<noteq>
     Inl (RuntimeError ''bias_has_grad should be false when has_attn_bias is false!'')
   \<and> batched_backward_fp16 example_headdim_switch (example_bwd_params 0 False False) \<noteq>
     Inl (RuntimeError ''bias_has_grad should be false when has_attn_bias is false!'')"
proof -
  have sw: "example_headdim_switch 64 64 = Inr 64"
    by (simp add: example_headdim_switch_def)
  show ?thesis
    using batched_backward_fp16_bias_grad_error
            [of "example_bwd_params 0 False True" example_headdim_switch]
          batched_backward_fp16_bias_grad_error
            [of "example_bwd_params 0 True True" example_headdim_switch]
          batched_backward_fp16_bias_grad_error
            [of "example_bwd_params 0 False False" example_headdim_switch]
    by (simp add: example_bwd_params_def sw)
qed

text \<open>
  Claim C4. The dispatchers select the instantiation determined by the run-time
  parameters. \<open>batched_backward_fp16\<close> invokes an instantiation exactly when the bias
  flags are consistent, the head-dimension switch gives a \<open>MaxK\<close> and
  \<open>custom_mask_type\<close> is 0, 1 or 2; the instantiation then has \<open>kHasCausalMask = false\<close>
  exactly when \<open>custom_mask_type == 0\<close> and \<open>kHasCausalMask = true\<close> exactly when it is 1
  or 2, its bias argument is \<open>param.has_attn_bias\<close> and its bias-gradient argument is
  \<open>param.bias_has_grad\<close>. \<open>batched_backward_bp16\<close> invokes an instantiation exactly when
  \<open>custom_mask_type\<close> is 0, 1 or 2, and passes \<open>custom_mask_type\<close> itself as the integer
  template argument and \<open>param.has_attn_bias\<close> as the bias argument.
\<close>

theorem backward_dispatch_selects_instantiation:
  "(batched_backward_fp16 sw p = Inr c \<longleftrightarrow>
      (bwd_has_attn_bias p \<or> \<not> bwd_bias_has_grad p) \<and>
      sw (bwd_K p) (bwd_Kv p) = Inr (cm_MaxK c) \<and>
      (bwd_custom_mask_type p = 0 \<or> bwd_custom_mask_type p = 1 \<or> bwd_custom_mask_type p = 2) \<and>
      cm_scalar_t c = half_t \<and>
      (cm_has_causal_mask c \<longleftrightarrow> bwd_custom_mask_type p \<noteq> 0) \<and>
      cm_has_attn_bias c = bwd_has_attn_bias p \<and>
      cm_has_bias_grad c = bwd_bias_has_grad p)
   \<and> (batched_backward_fp16 sw p = Inr c \<longrightarrow>
        (\<not> cm_has_causal_mask c \<longleftrightarrow> bwd_custom_mask_type p = 0) \<and>
        (cm_has_causal_mask c \<longleftrightarrow> bwd_custom_mask_type p = 1 \<or> bwd_custom_mask_type p = 2))
   \<and> (batched_backward_bp16 p = Inr d \<longleftrightarrow>
        (bwd_custom_mask_type p = 0 \<or> bwd_custom_mask_type p = 1 \<or> bwd_custom_mask_type p = 2) \<and>
        mt_scalar_t d = bhalf_t \<and>
        mt_custom_mask_type d = bwd_custom_mask_type p \<and>
        mt_has_attn_bias d = bwd_has_attn_bias p)"
proof -
  have fp16: "batched_backward_fp16 sw p = Inr c \<longleftrightarrow>
      (bwd_has_attn_bias p \<or> \<not> bwd_bias_has_grad p) \<and>
      sw (bwd_K p) (bwd_Kv p) = Inr (cm_MaxK c) \<and>
      (bwd_custom_mask_type p = 0 \<or> bwd_custom_mask_type p = 1 \<or> bwd_custom_mask_type p = 2) \<and>
      cm_scalar_t c = half_t \<and>
      (cm_has_causal_mask c \<longleftrightarrow> bwd_custom_mask_type p \<noteq> 0) \<and>
      cm_has_attn_bias c = bwd_has_attn_bias p \<and>
      cm_has_bias_grad c = bwd_bias_has_grad p"
    by (cases c) (auto simp: batched_backward_fp16_def Let_def split: sum.splits)
  have bp16: "batched_backward_bp16 p = Inr d \<longleftrightarrow>
        (bwd_custom_mask_type p = 0 \<or> bwd_custom_mask_type p = 1 \<or> bwd_custom_mask_type p = 2) \<and>
        mt_scalar_t d = bhalf_t \<and>
        mt_custom_mask_type d = bwd_custom_mask_type p \<and>
        mt_has_attn_bias d = bwd_has_attn_bias p"
    by (cases d) (auto simp: batched_backward_bp16_def)
  from fp16 have causal: "batched_backward_fp16 sw p = Inr c \<longrightarrow>
        (\<not> cm_has_causal_mask c \<longleftrightarrow> bwd_custom_mask_type p = 0) \<and>
        (cm_has_causal_mask c \<longleftrightarrow> bwd_custom_mask_type p = 1 \<or> bwd_custom_mask_type p = 2)"
    by auto
  from fp16 causal bp16 show ?thesis by blast
qed

theorem backward_dispatch_selects_instantiation_witness:
  "batched_backward_fp16 example_headdim_switch (example_bwd_params 0 True False) =
     Inr \<lparr>cm_scalar_t = half_t, cm_has_causal_mask = False, cm_has_attn_bias = True,
          cm_has_bias_grad = False, cm_MaxK = 64\<rparr>
   \<and> batched_backward_fp16 example_headdim_switch (example_bwd_params 2 True True) =
     Inr \<lparr>cm_scalar_t = half_t, cm_has_causal_mask = True, cm_has_attn_bias = True,
          cm_has_bias_grad = True, cm_MaxK = 64\<rparr>
   \<and> batched_backward_bp16 (example_bwd_params 1 False False) =
     Inr \<lparr>mt_scalar_t = bhalf_t, mt_custom_mask_type = 1, mt_has_attn_bias = False\<rparr>"
proof -
  have sw: "example_headdim_switch 64 64 = Inr 64"
    by (simp add: example_headdim_switch_def)
  show ?thesis
    using backward_dispatch_selects_instantiation
            [of example_headdim_switch "example_bwd_params 0 True False"
                "\<lparr>cm_scalar_t = half_t, cm_has_causal_mask = False, cm_has_attn_bias = True,
                  cm_has_bias_grad = False, cm_MaxK = 64\<rparr>"
                "\<lparr>mt_scalar_t = bhalf_t, mt_custom_mask_type = 1, mt_has_attn_bias = False\<rparr>"]
          backward_dispatch_selects_instantiation
            [of example_headdim_switch "example_bwd_params 2 True True"
                "\<lparr>cm_scalar_t = half_t, cm_has_causal_mask = True, cm_has_attn_bias = True,
                  cm_has_bias_grad = True, cm_MaxK = 64\<rparr>"
                "\<lparr>mt_scalar_t = bhalf_t, mt_custom_mask_type = 1, mt_has_attn_bias = False\<rparr>"]
          backward_dispatch_selects_instantiation
            [of example_headdim_switch "example_bwd_params 1 False False"
                "\<lparr>cm_scalar_t = half_t, cm_has_causal_mask = True, cm_has_attn_bias = False,
                  cm_has_bias_grad = False, cm_MaxK = 64\<rparr>"
                "\<lparr>mt_scalar_t = bhalf_t, mt_custom_mask_type = 1, mt_has_attn_bias = False\<rparr>"]
    by (simp add: example_bwd_params_def sw)
qed

section \<open>Batched inference: the tile, the arguments and the support check\<close>

text \<open>
  Claim C2. In \<open>RunWithDeviceOp\<close>, whenever the CK instantiation reports the marshaled
  arguments unsupported (\<open>IsSupportedArgument\<close> returns false), a \<open>std::runtime_error\<close> is
  raised whose message is the instantiation's \<open>GetTypeString()\<close> followed by
  \<open>" does not support this problem"\<close>, and the invoker is not run; the invoker runs
  exactly when \<open>IsSupportedArgument\<close> returns true, and then on the marshaled arguments.
\<close>

theorem RunWithDeviceOp_unsupported_raises:
  "(\<not> IsSupportedArgument op (batched_infer_arg_ptr b mem op p) \<longrightarrow>
      batched_infer_RunWithDeviceOp b mem op p =
        Inl (RuntimeError (GetTypeString op @ '' does not support this problem'')))
   \<and> (IsSupportedArgument op (batched_infer_arg_ptr b mem op p) \<longrightarrow>
      batched_infer_RunWithDeviceOp b mem op p = Inr (batched_infer_arg_ptr b mem op p))
   \<and> (\<not> isl (batched_infer_RunWithDeviceOp b mem op p) \<longleftrightarrow>
        IsSupportedArgument op (batched_infer_arg_ptr b mem op p))"
  by (simp add: batched_infer_RunWithDeviceOp_def Let_def)

theorem RunWithDeviceOp_unsupported_raises_witness:
  "batched_infer_RunWithDeviceOp False (\<lambda>n. Some 24576) (example_device_op False 64 2 2)
     (example_infer_params 64 64 False) =
     Inl (RuntimeError
       ''DeviceBatchedMultiheadAttentionInfer_Xdl_CShuffle does not support this problem'')
   \<and> \<not> isl (batched_infer_RunWithDeviceOp False (\<lambda>n. Some 24576)
         (example_device_op True 64 2 2) (example_infer_params 64 64 False))"
  using RunWithDeviceOp_unsupported_raises
          [of "example_device_op False 64 2 2" False "\<lambda>n. Some 24576"
              "example_infer_params 64 64 False"]
        RunWithDeviceOp_unsupported_raises
          [of "example_device_op True 64 2 2" False "\<lambda>n. Some 24576"
              "example_infer_params 64 64 False"]
  by (simp add: example_device_op_def)

text \<open>
  Claim C5. For every \<open>K\<close> and \<open>Kv\<close>, \<open>Run\<close> selects exactly one tile configuration:
  \<open>kGemm1NPerBlock = 32\<close> (with 1 and 1) if and only if \<open>K \<le> 32\<close> and \<open>Kv \<le> 32\<close>;
  otherwise 64 (with 2 and 2) if and only if \<open>K \<le> 64\<close> and \<open>Kv \<le> 64\<close>; otherwise 128
  (with 4 and 4). The selection is total: \<open>Run\<close> is \<open>RunWithDeviceOp\<close> of the selected
  instantiation for all \<open>K\<close> and \<open>Kv\<close>, also beyond 128, so it raises no error of its own
  and never skips the launch; if the instantiations support their arguments, \<open>Run\<close>
  launches.
\<close>

theorem Run_selects_tile:
  "(inf_K p \<le>s 32 \<and> inf_Kv p \<le>s 32 \<longrightarrow>
      batched_infer_Run b mem T p = batched_infer_RunWithDeviceOp b mem (T 32 1 1) p)
   \<and> (\<not> (inf_K p \<le>s 32 \<and> inf_Kv p \<le>s 32) \<and> inf_K p \<le>s 64 \<and> inf_Kv p \<le>s 64 \<longrightarrow>
      batched_infer_Run b mem T p = batched_infer_RunWithDeviceOp b mem (T 64 2 2) p)
   \<and> (\<not> (inf_K p \<le>s 32 \<and> inf_Kv p \<le>s 32) \<and> \<not> (inf_K p \<le>s 64 \<and> inf_Kv p \<le>s 64) \<longrightarrow>
      batched_infer_Run b mem T p = batched_infer_RunWithDeviceOp b mem (T 128 4 4) p)
   \<and> ((\<forall>n x s a. IsSupportedArgument (T n x s) a) \<longrightarrow>
      \<not> isl (batched_infer_Run b mem T p))"
  by (simp add: batched_infer_Run_def batched_infer_RunWithDeviceOp_def Let_def)

theorem Run_selects_tile_witness:
  "batched_infer_Run True (\<lambda>n. Some 24576) (example_device_op True)
       (example_infer_params 32 16 True) =
     batched_infer_RunWithDeviceOp True (\<lambda>n. Some 24576) (example_device_op True 32 1 1)
       (example_infer_params 32 16 True)
   \<and> batched_infer_Run True (\<lambda>n. Some 24576) (example_device_op True)
       (example_infer_params 16 33 True) =
     batched_infer_RunWithDeviceOp True (\<lambda>n. Some 24576) (example_device_op True 64 2 2)
       (example_infer_params 16 33 True)
   \<and> batched_infer_Run True (\<lambda>n. Some 24576) (example_device_op True)
       (example_infer_params 256 8 True) =
     batched_infer_RunWithDeviceOp True (\<lambda>n. Some 24576) (example_device_op True 128 4 4)
       (example_infer_params 256 8 True)
   \<and> \<not> isl (batched_infer_Run True (\<lambda>n. Some 24576) (example_device_op True)
       (example_infer_params 256 8 True))"
proof -
  have supported: "\<forall>n x s a. IsSupportedArgument (example_device_op True n x s) a"
    by (simp add: example_device_op_def)
  have small: "inf_K (example_infer_params 32 16 True) \<le>s 32
      \<and> inf_Kv (example_infer_params 32 16 True) \<le>s 32"
    by (simp add: example_infer_params_def)
  have middle: "\<not> (inf_K (example_infer_params 16 33 True) \<le>s 32
        \<and> inf_Kv (example_infer_params 16 33 True) \<le>s 32)
      \<and> inf_K (example_infer_params 16 33 True) \<le>s 64
      \<and> inf_Kv (example_infer_params 16 33 True) \<le>s 64"
    by (simp add: example_infer_params_def)
  have large: "\<not> (inf_K (example_infer_params 256 8 True) \<le>s 32
        \<and> inf_Kv (example_infer_params 256 8 True) \<le>s 32)
      \<and> \<not> (inf_K (example_infer_params 256 8 True) \<le>s 64
        \<and> inf_Kv (example_infer_params 256 8 True) \<le>s 64)"
    by (simp add: example_infer_params_def)
  show ?thesis
    using Run_selects_tile
            [of "example_infer_params 32 16 True" True "\<lambda>n. Some 24576" "example_device_op True"]
          Run_selects_tile
            [of "example_infer_params 16 33 True" True "\<lambda>n. Some 24576" "example_device_op True"]
          Run_selects_tile
            [of "example_infer_params 256 8 True" True "\<lambda>n. Some 24576" "example_device_op True"]
          supported small middle large
    by blast
qed

text \<open>
  Claim C6. \<open>RunWithDeviceOp\<close> marshals the parameter struct as follows, for every
  parameter struct: the Q lengths are \<open>{B, num_heads, M, K}\<close> with the strides
  \<open>{q_strides[0], q_strides[2], q_strides[1], q_strides[3]}\<close>; the V lengths are
  \<open>{B, num_heads, Kv, N}\<close> with the strides
  \<open>{v_strides[0], v_strides[2], v_strides[3], v_strides[1]}\<close>; the \<open>Scale\<close> element
  operation receives \<open>param.scale\<close>; and when \<open>has_attn_bias\<close> is false the bias pointer
  is null and the bias lengths and strides are \<open>{1,1,1,1}\<close> and \<open>{0,0,0,0}\<close>. The code
  has two flags of that name: the pointer follows the field \<open>param.has_attn_bias\<close>, the
  lengths and strides follow the template argument \<open>has_attn_bias\<close>.
\<close>

theorem RunWithDeviceOp_marshals_arguments:
  "a_gs_ms_ks_lengths (batched_infer_arg_ptr b mem op p) =
      [inf_B p, inf_num_heads p, inf_M p, inf_K p]
   \<and> a_gs_ms_ks_strides (batched_infer_arg_ptr b mem op p) =
      [inf_q_strides p 0, inf_q_strides p 2, inf_q_strides p 1, inf_q_strides p 3]
   \<and> b1_gs_os_ns_lengths (batched_infer_arg_ptr b mem op p) =
      [inf_B p, inf_num_heads p, inf_Kv p, inf_N p]
   \<and> b1_gs_os_ns_strides (batched_infer_arg_ptr b mem op p) =
      [inf_v_strides p 0, inf_v_strides p 2, inf_v_strides p 3, inf_v_strides p 1]
   \<and> acc0_element_op (batched_infer_arg_ptr b mem op p) = inf_scale p
   \<and> (\<not> inf_has_attn_bias p \<longrightarrow> arg_attn_bias_ptr (batched_infer_arg_ptr b mem op p) = None)
   \<and> (\<not> b \<longrightarrow> d_gs_ms_ns_lengths (batched_infer_arg_ptr b mem op p) = [1, 1, 1, 1]
             \<and> d_gs_ms_ns_strides (batched_infer_arg_ptr b mem op p) = [0, 0, 0, 0])
   \<and> (\<forall>a. batched_infer_RunWithDeviceOp b mem op p = Inr a \<longrightarrow>
         a = batched_infer_arg_ptr b mem op p)"
  by (simp add: batched_infer_arg_ptr_def batched_infer_RunWithDeviceOp_def Let_def)

theorem RunWithDeviceOp_marshals_arguments_witness:
  "batched_infer_RunWithDeviceOp False (\<lambda>n. Some 24576) (example_device_op True 64 2 2)
     (example_infer_params 64 48 False) =
   Inr \<lparr>arg_q_ptr = Some 4096, arg_k_ptr = Some 8192, arg_v_ptr = Some 12288,
        arg_out_ptr = Some 20480, arg_attn_bias_ptr = None,
        a_gs_ms_ks_lengths = [2, 8, 128, 64], a_gs_ms_ks_strides = [65536, 64, 512, 1],
        b0_gs_ns_ks_lengths = [2, 8, 256, 64], b0_gs_ns_ks_strides = [131072, 64, 512, 1],
        b1_gs_os_ns_lengths = [2, 8, 48, 256], b1_gs_os_ns_strides = [131072, 64, 1, 512],
        c_gs_ms_os_lengths = [2, 8, 128, 48], c_gs_ms_os_strides = [65536, 64, 512, 1],
        d_gs_ms_ns_lengths = [1, 1, 1, 1], d_gs_ms_ns_strides = [0, 0, 0, 0],
        acc0_element_op = 1 / 8, arg_workspace = Some 24576\<rparr>"
proof -
  have "batched_infer_RunWithDeviceOp False (\<lambda>n. Some 24576) (example_device_op True 64 2 2)
          (example_infer_params 64 48 False) =
        Inr (batched_infer_arg_ptr False (\<lambda>n. Some 24576) (example_device_op True 64 2 2)
          (example_infer_params 64 48 False))"
    by (simp add: batched_infer_RunWithDeviceOp_def example_device_op_def)
  moreover have "arg_attn_bias_ptr (batched_infer_arg_ptr False (\<lambda>n. Some 24576)
      (example_device_op True 64 2 2) (example_infer_params 64 48 False)) = None"
    using RunWithDeviceOp_marshals_arguments
            [of False "\<lambda>n. Some 24576" "example_device_op True 64 2 2"
                "example_infer_params 64 48 False"]
    by (simp add: example_infer_params_def)
  ultimately show ?thesis
    by (simp add: batched_infer_arg_ptr_def example_infer_params_def example_device_op_def
        Let_def)
qed

section \<open>Grouped dispatch: mask type, Philox state and window arguments\<close>

lemma sint_pred:
  fixes w :: index_t
  assumes "0 <s w"
  shows "sint (w - 1) = sint w - 1"
proof -
  from assms have pos: "0 < sint w" by (simp add: word_sless_alt)
  have ub: "sint w < 2 ^ 31" using sint_lt [of w] by simp
  have "sint (w - 1) = signed_take_bit 31 (sint w - 1)"
    by (simp add: sint_word_ariths)
  also have "\<dots> = sint w - 1"
    using pos ub by (intro signed_take_bit_int_eq_self) auto
  finally show ?thesis .
qed

text \<open>
  Claim C1, as the code has it. A \<open>custom_mask_type\<close> outside \<open>{0, 1, 2}\<close> makes
  \<open>batched_backward_bp16\<close> throw \<open>std::runtime_error("Invalid custom_mask_type value")\<close>
  and makes \<open>batched_backward_fp16\<close> throw an error, in both cases without invoking an
  instantiation. The error of \<open>batched_backward_fp16\<close> is
  \<open>"Invalid custom_mask_type value"\<close> when the bias flags are consistent and the
  head-dimension switch gives a \<open>MaxK\<close>; otherwise the bias-gradient error or the error of
  the head-dimension switch comes first. The grouped inference path does not look at the
  value: whenever the head ratio \<open>Hq / Hkv\<close> is defined, \<open>RunWithKernel\<close> launches with
  \<open>static_cast<CausalMaskType>(param.custom_mask_type)\<close> as the mask type, whatever the
  value is.
\<close>

theorem unrecognized_mask_type_raises:
  assumes "bwd_custom_mask_type p \<noteq> 0"
    and "bwd_custom_mask_type p \<noteq> 1"
    and "bwd_custom_mask_type p \<noteq> 2"
    and "grp_Hkv g \<noteq> 0"
    and "\<not> (grp_Hq g = - (2 ^ 31) \<and> grp_Hkv g = - 1)"
  shows "batched_backward_bp16 p = Inl (RuntimeError ''Invalid custom_mask_type value'')
    \<and> isl (batched_backward_fp16 sw p)
    \<and> ((bwd_has_attn_bias p \<or> \<not> bwd_bias_has_grad p) \<and> \<not> isl (sw (bwd_K p) (bwd_Kv p)) \<longrightarrow>
        batched_backward_fp16 sw p = Inl (RuntimeError ''Invalid custom_mask_type value''))
    \<and> (\<exists>l. grouped_infer_RunWithKernel g = Inr l \<and>
          infer_mask_type (launch_kargs l) = CausalMaskType (grp_custom_mask_type g))"
proof -
  from assms(1-3)
  have bp16: "batched_backward_bp16 p = Inl (RuntimeError ''Invalid custom_mask_type value'')"
    by (simp add: batched_backward_bp16_def)
  from assms(1-3) have fp16: "isl (batched_backward_fp16 sw p)"
    by (simp add: batched_backward_fp16_def Let_def split: sum.splits)
  from assms(1-3)
  have message: "(bwd_has_attn_bias p \<or> \<not> bwd_bias_has_grad p) \<and>
      \<not> isl (sw (bwd_K p) (bwd_Kv p)) \<longrightarrow>
      batched_backward_fp16 sw p = Inl (RuntimeError ''Invalid custom_mask_type value'')"
    by (auto simp: batched_backward_fp16_def Let_def split: sum.splits)
  from assms(4,5)
  have infer: "\<exists>l. grouped_infer_RunWithKernel g = Inr l \<and>
      infer_mask_type (launch_kargs l) = CausalMaskType (grp_custom_mask_type g)"
    by (simp add: grouped_infer_RunWithKernel_def c_div_def)
  from bp16 fp16 message infer show ?thesis by blast
qed

theorem unrecognized_mask_type_raises_witness:
  "batched_backward_bp16 (example_bwd_params 3 True False) =
     Inl (RuntimeError ''Invalid custom_mask_type value'')
   \<and> batched_backward_fp16 example_headdim_switch (example_bwd_params 3 True False) =
     Inl (RuntimeError ''Invalid custom_mask_type value'')
   \<and> \<not> isl (grouped_infer_RunWithKernel (example_grouped_params 3 0))"
proof -
  have mask: "bwd_custom_mask_type (example_bwd_params 3 True False) \<noteq> 0"
    "bwd_custom_mask_type (example_bwd_params 3 True False) \<noteq> 1"
    "bwd_custom_mask_type (example_bwd_params 3 True False) \<noteq> 2"
    by (simp_all add: example_bwd_params_def)
  have ratio: "grp_Hkv (example_grouped_params 3 0) \<noteq> 0"
    "\<not> (grp_Hq (example_grouped_params 3 0) = - (2 ^ 31)
        \<and> grp_Hkv (example_grouped_params 3 0) = - 1)"
    by (simp_all add: example_grouped_params_def)
  have flags: "bwd_has_attn_bias (example_bwd_params 3 True False)"
    by (simp add: example_bwd_params_def)
  have switch: "\<not> isl (example_headdim_switch (bwd_K (example_bwd_params 3 True False))
      (bwd_Kv (example_bwd_params 3 True False)))"
    by (simp add: example_bwd_params_def example_headdim_switch_def)
  from unrecognized_mask_type_raises [OF mask ratio, of example_headdim_switch] flags switch
  show ?thesis by auto
qed

theorem unrecognized_mask_type_counterexample:
  "\<not> isl (grouped_infer_RunWithKernel (example_grouped_params 3 0))
   \<and> infer_mask_type (launch_kargs (projr (grouped_infer_RunWithKernel
        (example_grouped_params 3 0)))) = CausalMaskType 3
   \<and> \<not> isl (grouped_infer_Run half_t False False 64 example_shape (example_grouped_params 3 0))
   \<and> batched_backward_fp16 example_headdim_switch (example_bwd_params 3 False True) =
       Inl (RuntimeError ''bias_has_grad should be false when has_attn_bias is false!'')"
  by (simp add: grouped_infer_RunWithKernel_def grouped_infer_Run_def c_div_def c_rem_def
      example_grouped_params_def example_shape_def batched_backward_fp16_def
      example_bwd_params_def Let_def)

text \<open>
  Claim C9. For every parameter struct (for which the head ratio \<open>Hq / Hkv\<close> is defined,
  so that the arguments are built at all), the grouped inference dispatch passes the
  Philox seed and offset \<open>{0, 0}\<close> and \<open>is_store_randval = false\<close>, whatever
  \<open>param.philox_seed\<close>, \<open>param.philox_offset\<close> and \<open>param.dropout_prob\<close> are, and passes
  null for the LSE pointer and zero for all LSE and randval strides; the grouped forward
  dispatch passes \<open>param.philox_seed\<close> and \<open>param.philox_offset\<close>.
\<close>

theorem grouped_infer_passes_no_philox_state:
  assumes "grp_Hkv p \<noteq> 0"
    and "\<not> (grp_Hq p = - (2 ^ 31) \<and> grp_Hkv p = - 1)"
  shows "\<exists>li lf.
      grouped_infer_RunWithKernel p = Inr li \<and>
      grouped_forward_RunWithKernel p = Inr lf \<and>
      drop_seed_offset (launch_kargs li) = (0, 0) \<and>
      \<not> is_store_randval (launch_kargs li) \<and>
      lse_ptr (launch_kargs li) = None \<and>
      nhead_stride_lse (launch_kargs li) = 0 \<and>
      batch_stride_lse (launch_kargs li) = 0 \<and>
      stride_randval (launch_kargs li) = 0 \<and>
      nhead_stride_randval (launch_kargs li) = 0 \<and>
      drop_seed_offset (launch_kargs lf) = (grp_philox_seed p, grp_philox_offset p)"
  using assms
  by (simp add: grouped_infer_RunWithKernel_def grouped_forward_RunWithKernel_def c_div_def)

theorem grouped_infer_passes_no_philox_state_witness:
  "drop_seed_offset (launch_kargs (projr (grouped_infer_RunWithKernel
      (example_grouped_params 1 0)))) = (0, 0)
   \<and> lse_ptr (launch_kargs (projr (grouped_infer_RunWithKernel
      (example_grouped_params 1 0)))) = None
   \<and> drop_seed_offset (launch_kargs (projr (grouped_forward_RunWithKernel
      (example_grouped_params 1 0)))) = (1234, 5678)"
proof -
  have ratio: "grp_Hkv (example_grouped_params 1 0) \<noteq> 0"
    "\<not> (grp_Hq (example_grouped_params 1 0) = - (2 ^ 31)
        \<and> grp_Hkv (example_grouped_params 1 0) = - 1)"
    by (simp_all add: example_grouped_params_def)
  have state: "grp_philox_seed (example_grouped_params 1 0) = 1234"
    "grp_philox_offset (example_grouped_params 1 0) = 5678"
    by (simp_all add: example_grouped_params_def)
  from grouped_infer_passes_no_philox_state [OF ratio] state show ?thesis by auto
qed

text \<open>
  Claim C10. In the grouped forward dispatch (for a parameter struct whose head ratio
  \<open>Hq / Hkv\<close> is defined), the kernel argument \<open>window_left_size\<close> is
  \<open>param.window_size - 1\<close> when \<open>param.window_size > 0\<close> (the subtraction does not wrap)
  and \<open>-1\<close> otherwise, and \<open>window_right_size\<close> is \<open>-1\<close> exactly when
  \<open>param.custom_mask_type == 0\<close> and \<open>0\<close> otherwise. \<open>Run\<close> (for tile constants other than
  0 and -1, so that the remainders are defined) launches a kernel whose mask type is the
  masked variant exactly when \<open>kHasCausalMask\<close> holds or \<open>param.window_size > 0\<close>: local
  attention forces the masked variant even when the causal-mask flag is false.
\<close>

theorem grouped_forward_window_arguments:
  assumes "grp_Hkv p \<noteq> 0"
    and "\<not> (grp_Hq p = - (2 ^ 31) \<and> grp_Hkv p = - 1)"
  shows "\<exists>l. grouped_forward_RunWithKernel p = Inr l \<and>
      (0 <s grp_window_size p \<longrightarrow>
         window_left_size (launch_kargs l) = grp_window_size p - 1 \<and>
         sint (window_left_size (launch_kargs l)) = sint (grp_window_size p) - 1) \<and>
      (\<not> 0 <s grp_window_size p \<longrightarrow> window_left_size (launch_kargs l) = - 1) \<and>
      (window_right_size (launch_kargs l) = - 1 \<longleftrightarrow> grp_custom_mask_type p = 0) \<and>
      (grp_custom_mask_type p \<noteq> 0 \<longrightarrow> window_right_size (launch_kargs l) = 0) \<and>
      (kK0BlockLength sh \<noteq> 0 \<and> kK0BlockLength sh \<noteq> - 1 \<and> kN1 sh \<noteq> 0 \<and> kN1 sh \<noteq> - 1 \<longrightarrow>
         (\<exists>k. grouped_forward_Run st cm hb dr mk sh p = Inr (k, l) \<and>
              fk_FmhaMask k = SimplifiedGenericAttentionMask (cm \<or> 0 <s grp_window_size p)) \<and>
         (0 <s grp_window_size p \<longrightarrow>
           (\<exists>k. grouped_forward_Run st False hb dr mk sh p = Inr (k, l) \<and>
                fk_FmhaMask k = SimplifiedGenericAttentionMask True)))"
proof -
  define l where "l = projr (grouped_forward_RunWithKernel p)"
  from assms have run: "grouped_forward_RunWithKernel p = Inr l"
    by (simp add: l_def grouped_forward_RunWithKernel_def c_div_def)
  have left: "0 <s grp_window_size p \<longrightarrow>
      window_left_size (launch_kargs l) = grp_window_size p - 1 \<and>
      sint (window_left_size (launch_kargs l)) = sint (grp_window_size p) - 1"
    using assms
    by (auto simp: l_def grouped_forward_RunWithKernel_def c_div_def sint_pred)
  have no_window: "\<not> 0 <s grp_window_size p \<longrightarrow> window_left_size (launch_kargs l) = - 1"
    using assms by (auto simp: l_def grouped_forward_RunWithKernel_def c_div_def)
  have right: "(window_right_size (launch_kargs l) = - 1 \<longleftrightarrow> grp_custom_mask_type p = 0)
      \<and> (grp_custom_mask_type p \<noteq> 0 \<longrightarrow> window_right_size (launch_kargs l) = 0)"
    using assms by (auto simp: l_def grouped_forward_RunWithKernel_def c_div_def)
  have masked: "\<exists>k. grouped_forward_Run st c hb dr mk sh p = Inr (k, l) \<and>
      fk_FmhaMask k = SimplifiedGenericAttentionMask (c \<or> 0 <s grp_window_size p)"
    if "kK0BlockLength sh \<noteq> 0 \<and> kK0BlockLength sh \<noteq> - 1 \<and> kN1 sh \<noteq> 0 \<and> kN1 sh \<noteq> - 1"
    for c
    using that by (simp add: grouped_forward_Run_def run c_rem_def Let_def)
  from masked [of cm] masked [of False]
  have kernel: "kK0BlockLength sh \<noteq> 0 \<and> kK0BlockLength sh \<noteq> - 1 \<and> kN1 sh \<noteq> 0 \<and> kN1 sh \<noteq> - 1 \<longrightarrow>
      (\<exists>k. grouped_forward_Run st cm hb dr mk sh p = Inr (k, l) \<and>
           fk_FmhaMask k = SimplifiedGenericAttentionMask (cm \<or> 0 <s grp_window_size p)) \<and>
      (0 <s grp_window_size p \<longrightarrow>
        (\<exists>k. grouped_forward_Run st False hb dr mk sh p = Inr (k, l) \<and>
             fk_FmhaMask k = SimplifiedGenericAttentionMask True))"
    by auto
  from run left no_window right kernel show ?thesis by blast
qed

theorem grouped_forward_window_arguments_witness:
  "window_left_size (launch_kargs (projr (grouped_forward_RunWithKernel
      (example_grouped_params 0 128)))) = 127
   \<and> window_right_size (launch_kargs (projr (grouped_forward_RunWithKernel
      (example_grouped_params 0 128)))) = - 1
   \<and> fk_FmhaMask (fst (projr (grouped_forward_Run half_t False False False 64 example_shape
      (example_grouped_params 0 128)))) = SimplifiedGenericAttentionMask True"
proof -
  have ratio: "grp_Hkv (example_grouped_params 0 128) \<noteq> 0"
    "\<not> (grp_Hq (example_grouped_params 0 128) = - (2 ^ 31)
        \<and> grp_Hkv (example_grouped_params 0 128) = - 1)"
    by (simp_all add: example_grouped_params_def)
  have window: "0 <s grp_window_size (example_grouped_params 0 128)"
    "grp_window_size (example_grouped_params 0 128) = 128"
    "grp_custom_mask_type (example_grouped_params 0 128) = 0"
    by (simp_all add: example_grouped_params_def word_sless_alt)
  have shape: "kK0BlockLength example_shape \<noteq> 0 \<and> kK0BlockLength example_shape \<noteq> - 1
      \<and> kN1 example_shape \<noteq> 0 \<and> kN1 example_shape \<noteq> - 1"
    by (simp add: example_shape_def)
  from grouped_forward_window_arguments
         [OF ratio, of example_shape half_t False False False 64]
       window shape
  show ?thesis by auto
qed

section \<open>rand\_uniform\_int: shape, generator state and determinism\<close>

subsection \<open>Narrowing and widening of integers\<close>

lemma sint_nonneg_uint:
  fixes w :: "'a::len word"
  assumes "0 \<le> sint w"
  shows "uint w = sint w"
proof -
  have "sint w < 2 ^ (LENGTH('a) - 1)" by (rule sint_lt)
  also have "(2::int) ^ (LENGTH('a) - 1) \<le> 2 ^ LENGTH('a)"
    by (rule power_increasing) simp_all
  finally have "sint w < 2 ^ LENGTH('a)" .
  with assms have "take_bit LENGTH('a) (sint w) = sint w"
    by (simp add: take_bit_int_eq_self)
  then show ?thesis by (simp add: uint_sint)
qed

lemma small_sint:
  fixes w :: "32 word"
  assumes "uint w < 2 ^ 31"
  shows "sint w = uint w"
proof -
  have "sint w = signed_take_bit 31 (uint w)"
    by (simp add: sint_uint)
  also have "\<dots> = uint w"
  proof (rule signed_take_bit_int_eq_self)
    show "- (2 ^ 31) \<le> uint w"
      by (rule order_trans [of _ 0]) simp_all
    show "uint w < 2 ^ 31" by (rule assms)
  qed
  finally show ?thesis .
qed

lemma narrow:
  fixes s :: "64 word"
  assumes "0 \<le> sint s" "sint s < 2 ^ 31"
  shows "sint (ucast s :: 32 word) = sint s"
proof -
  have u: "uint s = sint s" using assms(1) by (rule sint_nonneg_uint)
  have "sint (ucast s :: 32 word) = signed_take_bit 31 (uint s)"
    by (simp add: signed_ucast_eq)
  also have "\<dots> = sint s"
    unfolding u
  proof (rule signed_take_bit_int_eq_self)
    from assms(1) show "- (2 ^ 31) \<le> sint s" by simp
    show "sint s < 2 ^ 31" by (rule assms)
  qed
  finally show ?thesis .
qed

lemma widen:
  fixes w :: "32 word"
  shows "sint (scast w :: 64 word) = sint w"
  by (rule sint_up_scast) (simp add: is_up)

lemma narrow_widen:
  fixes s :: "64 word"
  assumes "0 \<le> sint s" "sint s < 2 ^ 31"
  shows "(scast (ucast s :: 32 word) :: 64 word) = s"
proof -
  have "sint (scast (ucast s :: 32 word) :: 64 word) = sint s"
    using assms by (simp add: widen narrow)
  then show ?thesis by (rule signed_word_eqI)
qed

lemma uint_prod4:
  fixes a b c d :: "32 word"
  assumes "uint a * uint b * uint c * uint d < 2 ^ 31"
  shows "uint (a * b * c * d) = uint a * uint b * uint c * uint d"
proof -
  have "uint (a * b * c * d) = (uint a * uint b * uint c * uint d) mod 2 ^ 32"
    by (simp add: uint_word_ariths mod_mult_left_eq)
  also have "\<dots> = uint a * uint b * uint c * uint d"
  proof (rule mod_pos_pos_trivial)
    show "0 \<le> uint a * uint b * uint c * uint d" by simp
    from assms show "uint a * uint b * uint c * uint d < 2 ^ 32" by simp
  qed
  finally show ?thesis .
qed

lemma four_elems:
  assumes "3 < length xs"
  shows "\<exists>a b c d rest. xs = a # b # c # d # rest"
proof -
  from assms have "Suc (Suc (Suc (Suc 0))) \<le> length xs" by simp
  then show ?thesis by (auto simp: Suc_le_length_iff)
qed

subsection \<open>What a successful call returns\<close>

lemma rand_uniform_int_result:
  assumes "rand_uniform_int fw philox dp out gen = Inr r"
  shows "\<exists>s0 s1 s2 s3 rest. t_sizes out = s0 # s1 # s2 # s3 # rest \<and>
    res_kGridSize r = [ucast s0, ucast s1, ucast s2, ucast s3] \<and>
    t_sizes (res_randvals r) =
      [scast (ucast s0 :: index_t), scast (ucast s1 :: index_t),
       scast (ucast s2 :: index_t), scast (ucast s3 :: index_t)] \<and>
    res_increment r = scast (ucast s0 * ucast s1 * ucast s2 * ucast s3 :: index_t)"
    and "t_strides (res_randvals r) = empty_strides fw (t_sizes (res_randvals r))"
    and "t_options (res_randvals r) = (t_options out)\<lparr>opt_dtype := ScalarType_Int\<rparr>"
    and "ru_seed_offset (res_kargs r) =
      philox_unpack fw (fst (philox_cuda_state fw gen (res_increment r)))"
    and "res_generator r = snd (philox_cuda_state fw gen (res_increment r))"
    and "res_contents r = (\<lambda>element. philox (ru_seed_offset (res_kargs r)) (res_kGridSize r) element)"
proof -
  from assms have len: "3 < length (t_sizes out)"
    by (auto simp: rand_uniform_int_def tensor_size_def split: if_splits sum.splits)
  then obtain s0 s1 s2 s3 rest where sz: "t_sizes out = s0 # s1 # s2 # s3 # rest"
    using four_elems by blast
  from assms sz
  show "\<exists>s0 s1 s2 s3 rest. t_sizes out = s0 # s1 # s2 # s3 # rest \<and>
    res_kGridSize r = [ucast s0, ucast s1, ucast s2, ucast s3] \<and>
    t_sizes (res_randvals r) =
      [scast (ucast s0 :: index_t), scast (ucast s1 :: index_t),
       scast (ucast s2 :: index_t), scast (ucast s3 :: index_t)] \<and>
    res_increment r = scast (ucast s0 * ucast s1 * ucast s2 * ucast s3 :: index_t)"
    by (auto simp: rand_uniform_int_def tensor_size_def at_empty_def Let_def case_prod_beta
        split: if_splits)
  from assms sz
  show "t_strides (res_randvals r) = empty_strides fw (t_sizes (res_randvals r))"
    by (auto simp: rand_uniform_int_def tensor_size_def at_empty_def Let_def case_prod_beta
        split: if_splits)
  from assms sz
  show "t_options (res_randvals r) = (t_options out)\<lparr>opt_dtype := ScalarType_Int\<rparr>"
    by (auto simp: rand_uniform_int_def tensor_size_def at_empty_def Let_def case_prod_beta
        split: if_splits)
  from assms sz
  show "ru_seed_offset (res_kargs r) =
      philox_unpack fw (fst (philox_cuda_state fw gen (res_increment r)))"
    by (auto simp: rand_uniform_int_def tensor_size_def at_empty_def Let_def case_prod_beta
        split: if_splits)
  from assms sz
  show "res_generator r = snd (philox_cuda_state fw gen (res_increment r))"
    by (auto simp: rand_uniform_int_def tensor_size_def at_empty_def Let_def case_prod_beta
        split: if_splits)
  from assms sz
  show "res_contents r = (\<lambda>element. philox (ru_seed_offset (res_kargs r)) (res_kGridSize r) element)"
    by (auto simp: rand_uniform_int_def tensor_size_def at_empty_def Let_def case_prod_beta
        FmhaRandUniformKernel_def split: if_splits)
qed

text \<open>
  Claim C7, as the code has it. For every 4-dimensional \<open>out_pattern\<close> whose sizes fit
  a 32-bit \<open>int\<close> (the type of \<open>B\<close>, \<open>num_heads\<close>, \<open>M\<close> and \<open>N\<close>), \<open>rand_uniform_int\<close>
  returns a new tensor of shape \<open>[size(0), size(1), size(2), size(3)]\<close> and dtype \<open>Int\<close>:
  the tensor returned is the one \<open>at::empty\<close> allocated for these sizes and options, with
  the storage and strides \<open>at::empty\<close> gave it (not those of \<open>out_pattern\<close>), and it is the
  tensor the kernel writes to;
  the seed and offset in the kernel arguments are the ones unpacked from the state that
  the generator gave for the increment asked; and that increment is the \<open>int\<close> product
  \<open>B * num_heads * M * N\<close>, which is exactly the product of the four sizes whenever that
  product fits a 32-bit \<open>int\<close>.
\<close>

theorem rand_uniform_int_shape_and_increment:
  assumes len: "length (t_sizes out_pattern) = 4"
    and range: "list_all (\<lambda>s. 0 \<le>s s \<and> s <s 2 ^ 31) (t_sizes out_pattern)"
  shows "\<exists>r. rand_uniform_int fw philox dropout_prob out_pattern gen = Inr r \<and>
      at_empty fw (t_sizes out_pattern) ((t_options out_pattern)\<lparr>opt_dtype := ScalarType_Int\<rparr>) =
        Inr (res_randvals r) \<and>
      t_data_ptr (res_randvals r) = empty_data_ptr fw (t_sizes out_pattern) \<and>
      t_strides (res_randvals r) = empty_strides fw (t_sizes out_pattern) \<and>
      ru_rand_val_ptr (res_kargs r) = t_data_ptr (res_randvals r) \<and>
      t_sizes (res_randvals r) = t_sizes out_pattern \<and>
      opt_dtype (t_options (res_randvals r)) = ScalarType_Int \<and>
      ru_seed_offset (res_kargs r) =
        philox_unpack fw (fst (philox_cuda_state fw gen (res_increment r))) \<and>
      res_generator r = snd (philox_cuda_state fw gen (res_increment r)) \<and>
      res_increment r = scast (prod_list (map ucast (t_sizes out_pattern) :: index_t list)) \<and>
      (prod_list (map sint (t_sizes out_pattern)) < 2 ^ 31 \<longrightarrow>
        uint (res_increment r) = prod_list (map sint (t_sizes out_pattern)))"
proof -
  from len obtain s0 s1 s2 s3 where sz: "t_sizes out_pattern = [s0, s1, s2, s3]"
    using four_elems [of "t_sizes out_pattern"] by auto
  from range sz have bounds:
    "0 \<le> sint s0" "sint s0 < 2 ^ 31" "0 \<le> sint s1" "sint s1 < 2 ^ 31"
    "0 \<le> sint s2" "sint s2 < 2 ^ 31" "0 \<le> sint s3" "sint s3 < 2 ^ 31"
    by (simp_all add: word_sle_eq word_sless_alt)
  have roundtrip: "(scast (ucast s0 :: index_t) :: int64_t) = s0"
    "(scast (ucast s1 :: index_t) :: int64_t) = s1"
    "(scast (ucast s2 :: index_t) :: int64_t) = s2"
    "(scast (ucast s3 :: index_t) :: int64_t) = s3"
    using bounds by (simp_all add: narrow_widen)
  have nonneg: "\<not> s0 <s 0" "\<not> s1 <s 0" "\<not> s2 <s 0" "\<not> s3 <s 0"
    using bounds by (simp_all add: word_sless_alt)
  define r where "r = projr (rand_uniform_int fw philox dropout_prob out_pattern gen)"
  have run: "rand_uniform_int fw philox dropout_prob out_pattern gen = Inr r"
    unfolding r_def
    by (simp add: rand_uniform_int_def tensor_size_def at_empty_def sz roundtrip nonneg Let_def
        case_prod_beta)
  note res = rand_uniform_int_result [OF run]
  from res(1) sz roundtrip have sizes: "t_sizes (res_randvals r) = t_sizes out_pattern"
    and inc: "res_increment r = scast (ucast s0 * ucast s1 * ucast s2 * ucast s3 :: index_t)"
    by auto
  from res(3) have dtype: "opt_dtype (t_options (res_randvals r)) = ScalarType_Int" by simp
  have allocated: "at_empty fw (t_sizes out_pattern)
      ((t_options out_pattern)\<lparr>opt_dtype := ScalarType_Int\<rparr>) = Inr (res_randvals r)"
    unfolding r_def
    by (simp add: rand_uniform_int_def tensor_size_def at_empty_def sz roundtrip nonneg Let_def
        case_prod_beta)
  have storage: "t_data_ptr (res_randvals r) = empty_data_ptr fw (t_sizes out_pattern)"
    and layout: "t_strides (res_randvals r) = empty_strides fw (t_sizes out_pattern)"
    unfolding r_def
    by (simp_all add: rand_uniform_int_def tensor_size_def at_empty_def sz roundtrip nonneg
        Let_def case_prod_beta)
  have target: "ru_rand_val_ptr (res_kargs r) = t_data_ptr (res_randvals r)"
    unfolding r_def
    by (simp add: rand_uniform_int_def tensor_size_def at_empty_def sz roundtrip nonneg Let_def
        case_prod_beta)
  have product: "uint (res_increment r) = prod_list (map sint (t_sizes out_pattern))"
    if small: "prod_list (map sint (t_sizes out_pattern)) < 2 ^ 31"
  proof -
    have u: "uint (ucast s0 :: index_t) = sint s0" "uint (ucast s1 :: index_t) = sint s1"
      "uint (ucast s2 :: index_t) = sint s2" "uint (ucast s3 :: index_t) = sint s3"
      using bounds by (simp_all add: narrow sint_nonneg_uint)
    from small sz have p: "uint (ucast s0 :: index_t) * uint (ucast s1 :: index_t) *
        uint (ucast s2 :: index_t) * uint (ucast s3 :: index_t) < 2 ^ 31"
      by (simp add: u mult.assoc)
    let ?w = "ucast s0 * ucast s1 * ucast s2 * ucast s3 :: index_t"
    have w: "uint ?w = sint s0 * sint s1 * sint s2 * sint s3"
      using uint_prod4 [OF p] by (simp add: u)
    with p u have "uint ?w < 2 ^ 31" by simp
    then have "sint ?w = uint ?w" by (rule small_sint)
    then have "sint (scast ?w :: int64_t) = uint ?w" by (simp add: widen)
    moreover have "0 \<le> uint ?w" by simp
    ultimately have "uint (scast ?w :: int64_t) = uint ?w"
      by (simp add: sint_nonneg_uint)
    with w inc sz show ?thesis by (simp add: mult.assoc)
  qed
  from inc sz
  have int_product:
    "res_increment r = scast (prod_list (map ucast (t_sizes out_pattern) :: index_t list))"
    by (simp add: mult.assoc)
  from run allocated storage layout target sizes dtype res(4) res(5) int_product product
  show ?thesis by blast
qed

theorem rand_uniform_int_shape_and_increment_witness:
  "t_sizes (res_randvals (projr (rand_uniform_int example_framework example_philox (1 / 10)
      (example_out_pattern [2, 8, 128, 256]) 1000))) = [2, 8, 128, 256]
   \<and> t_data_ptr (res_randvals (projr (rand_uniform_int example_framework example_philox
      (1 / 10) (example_out_pattern [2, 8, 128, 256]) 1000))) = Some 65536
   \<and> ru_rand_val_ptr (res_kargs (projr (rand_uniform_int example_framework example_philox
      (1 / 10) (example_out_pattern [2, 8, 128, 256]) 1000))) = Some 65536
   \<and> opt_dtype (t_options (res_randvals (projr (rand_uniform_int example_framework
      example_philox (1 / 10) (example_out_pattern [2, 8, 128, 256]) 1000)))) = ScalarType_Int
   \<and> uint (res_increment (projr (rand_uniform_int example_framework example_philox (1 / 10)
      (example_out_pattern [2, 8, 128, 256]) 1000))) = 524288"
proof -
  have len: "length (t_sizes (example_out_pattern [2, 8, 128, 256])) = 4"
    by (simp add: example_out_pattern_def)
  have range: "list_all (\<lambda>s. 0 \<le>s s \<and> s <s 2 ^ 31)
      (t_sizes (example_out_pattern [2, 8, 128, 256]))"
    by (simp add: example_out_pattern_def word_sle_eq word_sless_alt)
  have small: "prod_list (map sint (t_sizes (example_out_pattern [2, 8, 128, 256]))) < 2 ^ 31"
    and product: "prod_list (map sint (t_sizes (example_out_pattern [2, 8, 128, 256]))) = 524288"
    and sizes: "t_sizes (example_out_pattern [2, 8, 128, 256]) = [2, 8, 128, 256]"
    by (simp_all add: example_out_pattern_def)
  have storage: "empty_data_ptr example_framework
      (t_sizes (example_out_pattern [2, 8, 128, 256])) = Some 65536"
    by (simp add: example_framework_def)
  from rand_uniform_int_shape_and_increment
         [OF len range, of example_framework example_philox "1 / 10" 1000]
    small product sizes storage
  show ?thesis by auto
qed

text \<open>
  The claim as stated, for every 4-dimensional tensor, fails on a size beyond 32 bits:
  for an (empty) \<open>out_pattern\<close> of sizes \<open>[2^32, 0, 1, 1]\<close> the call returns a tensor of
  sizes \<open>[0, 0, 1, 1]\<close>.
\<close>

theorem rand_uniform_int_shape_counterexample:
  "\<not> isl (rand_uniform_int example_framework example_philox (1 / 10)
      (example_out_pattern [4294967296, 0, 1, 1]) 1000)
   \<and> t_sizes (res_randvals (projr (rand_uniform_int example_framework example_philox (1 / 10)
      (example_out_pattern [4294967296, 0, 1, 1]) 1000))) = [0, 0, 1, 1]
   \<and> t_sizes (res_randvals (projr (rand_uniform_int example_framework example_philox (1 / 10)
      (example_out_pattern [4294967296, 0, 1, 1]) 1000))) \<noteq>
     t_sizes (example_out_pattern [4294967296, 0, 1, 1])"
  by (simp add: rand_uniform_int_def tensor_size_def at_empty_def example_out_pattern_def
      example_framework_def Let_def word_sle_eq word_sless_alt)

text \<open>
  Claim C8. Two calls of \<open>rand_uniform_int\<close> that capture the same Philox state (equal
  seed and equal offset) and receive \<open>out_pattern\<close> tensors of the same shape return
  equal tensors: the same sizes, strides, dtype and contents, whatever the two
  \<open>dropout_prob\<close> values, the other properties of the two \<open>out_pattern\<close> tensors and the
  two generators are.
\<close>

theorem rand_uniform_int_deterministic:
  assumes r1: "rand_uniform_int fw philox dp1 out1 gen1 = Inr r1"
    and r2: "rand_uniform_int fw philox dp2 out2 gen2 = Inr r2"
    and shape: "t_sizes out1 = t_sizes out2"
    and state: "philox_unpack fw (fst (philox_cuda_state fw gen1 (res_increment r1))) =
                philox_unpack fw (fst (philox_cuda_state fw gen2 (res_increment r2)))"
  shows "t_sizes (res_randvals r1) = t_sizes (res_randvals r2)
    \<and> t_strides (res_randvals r1) = t_strides (res_randvals r2)
    \<and> opt_dtype (t_options (res_randvals r1)) = opt_dtype (t_options (res_randvals r2))
    \<and> res_contents r1 = res_contents r2"
proof -
  note a = rand_uniform_int_result [OF r1]
  note b = rand_uniform_int_result [OF r2]
  from a(1) b(1) shape have sizes: "t_sizes (res_randvals r1) = t_sizes (res_randvals r2)"
    and grid: "res_kGridSize r1 = res_kGridSize r2"
    by auto
  from a(4) b(4) state have seed: "ru_seed_offset (res_kargs r1) = ru_seed_offset (res_kargs r2)"
    by simp
  from sizes a(2) b(2) have strides: "t_strides (res_randvals r1) = t_strides (res_randvals r2)"
    by simp
  from a(3) b(3) have dtype: "opt_dtype (t_options (res_randvals r1)) = opt_dtype (t_options (res_randvals r2))"
    by simp
  from a(6) b(6) seed grid have "res_contents r1 = res_contents r2" by simp
  with sizes strides dtype show ?thesis by simp
qed

theorem rand_uniform_int_deterministic_witness:
  "res_contents (projr (rand_uniform_int example_framework example_philox (1 / 10)
      (example_out_pattern [2, 8, 128, 256]) 1000)) =
   res_contents (projr (rand_uniform_int example_framework example_philox (1 / 2)
      ((example_out_pattern [2, 8, 128, 256])\<lparr>t_data_ptr := Some 8192\<rparr>) 1000))"
proof -
  let ?c1 = "rand_uniform_int example_framework example_philox (1 / 10)
      (example_out_pattern [2, 8, 128, 256]) 1000"
  let ?c2 = "rand_uniform_int example_framework example_philox (1 / 2)
      ((example_out_pattern [2, 8, 128, 256])\<lparr>t_data_ptr := Some 8192\<rparr>) 1000"
  have r1: "?c1 = Inr (projr ?c1)"
    by (simp add: rand_uniform_int_def tensor_size_def at_empty_def example_out_pattern_def
        example_framework_def Let_def word_sle_eq word_sless_alt)
  have r2: "?c2 = Inr (projr ?c2)"
    by (simp add: rand_uniform_int_def tensor_size_def at_empty_def example_out_pattern_def
        example_framework_def Let_def word_sle_eq word_sless_alt)
  have shape: "t_sizes (example_out_pattern [2, 8, 128, 256]) =
      t_sizes ((example_out_pattern [2, 8, 128, 256])\<lparr>t_data_ptr := Some 8192\<rparr>)"
    by simp
  have state: "philox_unpack example_framework
        (fst (philox_cuda_state example_framework 1000 (res_increment (projr ?c1)))) =
      philox_unpack example_framework
        (fst (philox_cuda_state example_framework 1000 (res_increment (projr ?c2))))"
    by (simp add: example_framework_def)
  from rand_uniform_int_deterministic [OF r1 r2 shape state] show ?thesis by simp
qed

end
